theory Spec2Isabelle
  imports Main "HOL-Library.Multiset" "HOL-Library.Log_Nat"
begin

section \<open>Errors\<close>

text \<open>
  A Go \<open>error\<close> value. \<open>errors_New\<close> and \<open>fmt_Errorf\<close> are the two errors the program
  builds itself; \<open>Foreign\<close> is an error handed back by a library or system call (dialling,
  the handshake, a pipe, the scanner, the file system), named by its message.
\<close>

datatype error = errors_New string | fmt_Errorf string | Foreign string

section \<open>Connection pool\<close>

text \<open>
  \<open>ssh.Client\<close> and \<open>ssh.Session\<close> values are handles; the model names them by numbers.
\<close>

type_synonym client = nat
type_synonym session = nat

text \<open>
  The calls that leave the program, in the order they were made. The pool's behaviour is
  observed through this log: a \<open>Handshake\<close> entry is one call of \<open>newSSHClient\<close>, a
  \<open>NewSession\<close> entry one call of \<open>client.NewSession()\<close>.
\<close>

datatype call = Handshake string string | NewSession client

text \<open>
  What the outside world answers to the steps of one \<open>newSSHClient\<close> call:
  \<open>net.Dial("unix", agentSocket)\<close>, \<open>agent.Signers()\<close>, \<open>knownhosts.New\<close> (only read when
  the host key callback is built), \<open>net.DialTimeout("tcp", addr, 30s)\<close> and
  \<open>ssh.NewClientConn\<close>.
\<close>

record dial_outcome =
  agent_dial_err :: "error option"
  signers_err :: "error option"
  known_hosts_err :: "error option"
  tcp_dial_err :: "error option"
  client_conn :: "error + client"

text \<open>
  The environment of the pool. The answers may depend on the calls made so far, so that a
  later attempt can fail where an earlier one succeeded.
\<close>

record world =
  auth_sock :: string
  insecureIgnoreHostKey :: bool
  dial :: "call list \<Rightarrow> string \<Rightarrow> string \<Rightarrow> dial_outcome"
  open_session :: "call list \<Rightarrow> client \<Rightarrow> error + session"

text \<open>
  The package-level variables: \<open>clients\<close> (a map from target to \<open>*sshClient\<close>, whose
  embedded \<open>*ssh.Client\<close> is nil until the first successful handshake), the
  \<open>knownHostsOnce\<close> flag, and the log of outside calls.
\<close>

record pool =
  clients :: "string \<rightharpoonup> client option"
  knownHostsOnce :: bool
  calls :: "call list"

definition empty_pool :: pool where
  "empty_pool = \<lparr>clients = Map.empty, knownHostsOnce = False, calls = []\<rparr>"

text \<open>
  The result of a call that may also end the process: \<open>log.Fatal\<close> in \<open>getKnownHosts\<close>
  exits instead of returning.
\<close>

datatype 'a outcome = Ok 'a | Failed error | Fatal error

text \<open>
  \<open>getKnownHosts\<close>: the body runs once (\<open>sync.Once\<close>); with \<open>insecureIgnoreHostKey\<close> set it
  cannot fail, otherwise a failure to load the known-hosts file is fatal.
\<close>

definition getKnownHosts :: "world \<Rightarrow> dial_outcome \<Rightarrow> pool \<Rightarrow> error option \<times> pool" where
  "getKnownHosts w d s =
     (if knownHostsOnce s then (None, s)
      else if insecureIgnoreHostKey w then (None, s\<lparr>knownHostsOnce := True\<rparr>)
      else (known_hosts_err d, s\<lparr>knownHostsOnce := True\<rparr>))"

definition newSSHClient :: "world \<Rightarrow> string \<Rightarrow> string \<Rightarrow> pool \<Rightarrow> client outcome \<times> pool" where
  "newSSHClient w user host s0 =
     (let d = dial w (calls s0) user (host @ '':22'');
          s = s0\<lparr>calls := calls s0 @ [Handshake user host]\<rparr>
      in if auth_sock w = [] then (Failed (fmt_Errorf ''SSH_AUTH_SOCK empty''), s)
         else case agent_dial_err d of
           Some e \<Rightarrow> (Failed e, s)
         | None \<Rightarrow>
            (case signers_err d of
               Some e \<Rightarrow> (Failed e, s)
             | None \<Rightarrow>
                (case getKnownHosts w d s of
                   (Some e, s') \<Rightarrow> (Fatal e, s')
                 | (None, s') \<Rightarrow>
                    (case tcp_dial_err d of
                       Some e \<Rightarrow> (Failed e, s')
                     | None \<Rightarrow>
                        (case client_conn d of
                           Inl e \<Rightarrow> (Failed e, s')
                         | Inr c \<Rightarrow> (Ok c, s'))))))"

text \<open>\<open>client.NewSession()\<close> on a live client.\<close>

definition NewSession_on :: "world \<Rightarrow> client \<Rightarrow> pool \<Rightarrow> session outcome \<times> pool" where
  "NewSession_on w c s =
     (case open_session w (calls s) c of
        Inl e \<Rightarrow> (Failed e, s\<lparr>calls := calls s @ [NewSession c]\<rparr>)
      | Inr x \<Rightarrow> (Ok x, s\<lparr>calls := calls s @ [NewSession c]\<rparr>))"

text \<open>
  \<open>newSSHSession\<close>. The entry for the target \<open>user@host\<close> is created empty when absent; a
  handshake is made only while the entry's client is nil, and a failed handshake leaves it
  nil. The two mutexes serialise concurrent callers; the model is of sequential calls.
\<close>

definition target_of :: "string \<Rightarrow> string \<Rightarrow> string" where
  "target_of user host = user @ ''@'' @ host"

definition newSSHSession :: "world \<Rightarrow> string \<Rightarrow> string \<Rightarrow> pool \<Rightarrow> session outcome \<times> pool" where
  "newSSHSession w user host s0 =
     (let target = target_of user host;
          (cached, s) = (case clients s0 target of
                           None \<Rightarrow> (None, s0\<lparr>clients := (clients s0)(target \<mapsto> None)\<rparr>)
                         | Some entry \<Rightarrow> (entry, s0))
      in case cached of
           Some c \<Rightarrow> NewSession_on w c s
         | None \<Rightarrow>
            (case newSSHClient w user host s of
               (Ok c, s') \<Rightarrow> NewSession_on w c (s'\<lparr>clients := (clients s')(target \<mapsto> Some c)\<rparr>)
             | (Failed e, s') \<Rightarrow> (Failed e, s')
             | (Fatal e, s') \<Rightarrow> (Fatal e, s')))"

text \<open>The number of handshakes in a log of calls.\<close>

fun is_handshake :: "call \<Rightarrow> bool" where
  "is_handshake (Handshake u h) = True"
| "is_handshake (NewSession c) = False"

definition handshakes :: "pool \<Rightarrow> nat" where
  "handshakes s = length (filter is_handshake (calls s))"

text \<open>The live client cached for a target, if any.\<close>

definition cached_client :: "pool \<Rightarrow> string \<Rightarrow> string \<Rightarrow> client option" where
  "cached_client s user host =
     (case clients s (target_of user host) of None \<Rightarrow> None | Some entry \<Rightarrow> entry)"

text \<open>
  A world in which every step succeeds: the handshake yields client 7 and a session is
  named by the number of outside calls made before it was opened.
\<close>

definition demo_world :: world where
  "demo_world =
     \<lparr>auth_sock = ''/tmp/ssh-agent.sock'', insecureIgnoreHostKey = False,
      dial = (\<lambda>cs u a. \<lparr>agent_dial_err = None, signers_err = None, known_hosts_err = None,
                          tcp_dial_err = None, client_conn = Inr 7\<rparr>),
      open_session = (\<lambda>cs c. Inr (length cs))\<rparr>"

definition demo_pool1 :: pool where
  "demo_pool1 = snd (newSSHSession demo_world ''cockroach'' ''h1'' empty_pool)"

definition demo_pool2 :: pool where
  "demo_pool2 = snd (newSSHSession demo_world ''cockroach'' ''h1'' demo_pool1)"

section \<open>Formatting\<close>

text \<open>
  The verbs of \<open>fmt\<close> the program uses, on the values it passes: \<open>%d\<close> (decimal, a minus
  sign for a negative value), \<open>%04d\<close> (zero-padded to width four, the sign counted in the
  width) and \<open>%#o\<close> (octal with one leading zero, a lone \<open>0\<close> for zero).
\<close>

definition digit_char :: "nat \<Rightarrow> char" where
  "digit_char d = (if d < 10 then ''0123456789'' ! d else CHR ''?'')"

text \<open>The digits of \<open>n\<close> in base \<open>b\<close> (8 or 10 in this program), most significant first.\<close>

function digits_base :: "nat \<Rightarrow> nat \<Rightarrow> string" where
  "digits_base b n =
     (if b < 2 \<or> n < b then [digit_char n]
      else digits_base b (n div b) @ [digit_char (n mod b)])"
  by pat_completeness auto
termination
  by (relation "measure (\<lambda>(b, n). n)") auto

declare digits_base.simps [simp del]

definition fmt_d :: "int \<Rightarrow> string" where
  "fmt_d i = (if i < 0 then CHR ''-'' # digits_base 10 (nat (- i)) else digits_base 10 (nat i))"

definition zero_pad :: "nat \<Rightarrow> string \<Rightarrow> string" where
  "zero_pad w ds = replicate (w - length ds) CHR ''0'' @ ds"

definition fmt_04d :: "int \<Rightarrow> string" where
  "fmt_04d i =
     (if i < 0 then CHR ''-'' # zero_pad 3 (digits_base 10 (nat (- i)))
      else zero_pad 4 (digits_base 10 (nat i)))"

definition fmt_sharp_o :: "nat \<Rightarrow> string" where
  "fmt_sharp_o m = (if m = 0 then ''0'' else CHR ''0'' # digits_base 8 m)"

section \<open>Fan-out executor\<close>

record cluster =
  name :: string
  node_count :: int

text \<open>\<open>cluster.host\<close>: \<open>fmt.Sprintf("cockroach-%s-%04d.crdb.io", c.name, index)\<close>.\<close>

definition host :: "cluster \<Rightarrow> int \<Rightarrow> string" where
  "host c index = ''cockroach-'' @ name c @ ''-'' @ fmt_04d index @ ''.crdb.io''"



datatype status = Returned | Panicked string | Never_returns







section \<open>File transfer\<close>

subsection \<open>Streams\<close>

text \<open>
  An \<open>io.Writer\<close> outside the program (the session's input stream, or the file created by
  a download): the bytes it has taken so far, and how many more it takes before its writes
  fail (\<open>None\<close>: it never fails). A write beyond the room takes what fits and returns
  \<open>write_err\<close>, as a Go writer must when it takes fewer bytes than it was given.
\<close>

record sink =
  written :: string
  room :: "nat option"
  write_err :: error

definition sink_Write :: "sink \<Rightarrow> string \<Rightarrow> nat \<times> error option \<times> sink" where
  "sink_Write k b =
     (case room k of
        None \<Rightarrow> (length b, None, k\<lparr>written := written k @ b\<rparr>)
      | Some r \<Rightarrow>
          if length b \<le> r
          then (length b, None, k\<lparr>written := written k @ b, room := Some (r - length b)\<rparr>)
          else (r, Some (write_err k), k\<lparr>written := written k @ take r b, room := Some 0\<rparr>))"

text \<open>
  An \<open>io.Reader\<close> outside the program: the byte slices its successive \<open>Read\<close> calls
  return, and how it ends after them, with \<open>io.EOF\<close> (\<open>None\<close>) or with an error.
\<close>

record reader =
  chunks :: "string list"
  final :: "error option"

text \<open>
  \<open>io.LimitReader(r, n)\<close>: once \<open>n\<close> bytes have been read (at once when \<open>n \<le> 0\<close>) a read
  returns \<open>io.EOF\<close>; a read is never asked for more than the bytes that remain.
\<close>

fun limited :: "int \<Rightarrow> string list \<Rightarrow> error option \<Rightarrow> string list \<times> error option" where
  "limited n [] fin = ([], if n \<le> 0 then None else fin)"
| "limited n (c # cs) fin =
     (if n \<le> 0 then ([], None)
      else if int (length c) \<le> n
      then (let (ds, f) = limited (n - int (length c)) cs fin in (c # ds, f))
      else ([take (nat n) c], None))"

definition LimitReader :: "reader \<Rightarrow> int \<Rightarrow> reader" where
  "LimitReader r n =
     (let (ds, f) = limited n (chunks r) (final r) in \<lparr>chunks = ds, final = f\<rparr>)"

subsection \<open>The progress writer\<close>

text \<open>
  \<open>progressWriter\<close>. The callback \<open>progress\<close> is called with the quotient
  \<open>float64(p.done) / float64(p.total)\<close>; \<open>pw_progress\<close> lists the calls made so far,
  oldest first, each by the two operands \<open>(done, total)\<close> of that division. (\<open>done\<close>
  counts bytes held in a list: it cannot pass the range of an \<open>int64\<close>.)
\<close>

record progressWriter =
  pw_writer :: sink
  pw_done :: int
  pw_total :: int
  pw_progress :: "(int \<times> int) list"

definition pw_Write :: "progressWriter \<Rightarrow> string \<Rightarrow> nat \<times> error option \<times> progressWriter" where
  "pw_Write p b =
     (let (n, err, k) = sink_Write (pw_writer p) b
      in case err of
           None \<Rightarrow> (n, None, p\<lparr>pw_writer := k, pw_done := pw_done p + int n,
                               pw_progress := pw_progress p @ [(pw_done p + int n, pw_total p)]\<rparr>)
         | Some e \<Rightarrow> (n, Some e, p\<lparr>pw_writer := k\<rparr>))"

definition ErrShortWrite :: error where
  "ErrShortWrite = Foreign ''short write''"

text \<open>
  \<open>io.Copy(p, src)\<close> into a progress writer: every non-empty slice read is written; a
  write error or a short write ends the copy with that error; the reader's \<open>io.EOF\<close> ends
  it with no error, whatever the number of bytes copied; any other read error is returned.
  The first component is the number of bytes written.
\<close>

fun io_Copy ::
  "progressWriter \<Rightarrow> string list \<Rightarrow> error option \<Rightarrow> int \<times> error option \<times> progressWriter" where
  "io_Copy p [] fin = (0, fin, p)"
| "io_Copy p (c # cs) fin =
     (if c = [] then io_Copy p cs fin
      else let (nw, ew, p') = pw_Write p c
           in case ew of
                Some e \<Rightarrow> (int nw, Some e, p')
              | None \<Rightarrow>
                  if nw \<noteq> length c then (int nw, Some ErrShortWrite, p')
                  else let (n, e, p'') = io_Copy p' cs fin in (int nw + n, e, p''))"

subsection \<open>The value passed to the progress callback\<close>

text \<open>
  The callback receives \<open>float64(p.done) / float64(p.total)\<close>: two conversions of an
  \<open>int64\<close> to the nearest double and one division of doubles, each rounded to nearest,
  ties to even, with a significand of 53 bits. The double nearest to an \<open>int64\<close> is an
  integer, so the operands of the division are modelled as integers; the magnitudes that
  occur (at most \<open>2^63\<close> over at least 1) neither overflow nor underflow.
\<close>

text \<open>\<open>a / b\<close> rounded to the nearest integer, ties to even, for \<open>b > 0\<close>.\<close>

definition rne_div :: "int \<Rightarrow> int \<Rightarrow> int" where
  "rne_div a b =
     (let q = a div b; r = a mod b
      in if 2 * r < b then q else if b < 2 * r then q + 1 else if even q then q else q + 1)"



text \<open>\<open>float64(n)\<close> for an \<open>int64\<close>: exact up to 53 bits, rounded beyond.\<close>

definition float64_of_int :: "int \<Rightarrow> int" where
  "float64_of_int n =
     (let a = \<bar>n\<bar>; e = bitlen a - 1
      in if e \<le> 52 then n
         else sgn n * (rne_div a (2 ^ nat (e - 52)) * 2 ^ nat (e - 52)))"





subsection \<open>The join of foreground and background\<close>

text \<open>
  The error channel \<open>errCh\<close> (capacity one) as the final \<open>select\<close> finds it: nothing sent
  and not closed, one error waiting, or closed by a background task that met no error.
\<close>

datatype slot = Empty | Pending error | Closed

text \<open>
  \<open>select { case err := <-errCh: return err; default: return err }\<close> after
  \<open>err = session.Run(...)\<close>: a waiting error is received and returned, a closed channel
  yields the nil error, and only an empty open channel lets the result of \<open>Run\<close> through.
\<close>

definition select_join :: "error option \<Rightarrow> slot \<Rightarrow> error option" where
  "select_join run_err s = (case s of Pending e \<Rightarrow> Some e | Closed \<Rightarrow> None | Empty \<Rightarrow> run_err)"

subsection \<open>Upload\<close>

text \<open>
  \<open>path.Base\<close>: the last element of a slash-separated path, trailing slashes removed;
  \<open>.\<close> for the empty path and \<open>/\<close> for a path of slashes only.
\<close>

definition path_Base :: "string \<Rightarrow> string" where
  "path_Base p =
     (if p = [] then ''.''
      else let q = rev (dropWhile (\<lambda>c. c = CHR ''/'') (rev p));
               b = rev (takeWhile (\<lambda>c. c \<noteq> CHR ''/'') (rev q))
           in if b = [] then ''/'' else b)"

text \<open>\<open>FileMode.Perm\<close>: the mode masked with \<open>0777\<close>.\<close>

definition Perm :: "nat \<Rightarrow> nat" where
  "Perm m = m mod 512"

definition NUL :: char where
  "NUL = CHR 0x00"

text \<open>
  An open local file: what \<open>f.Stat()\<close> reports (mode and size) and what reading it yields.
\<close>

record os_file =
  f_mode :: nat
  f_size :: int
  f_reader :: reader

text \<open>
  What the outside answers to an upload: \<open>os.Open\<close>, \<open>f.Stat\<close>, \<open>session.StdinPipe\<close>,
  \<open>session.Run\<close>, and whether the background goroutine has sent its error or closed the
  channel by the time \<open>Run\<close> has returned and the \<open>select\<close> is made.
\<close>

record put_world =
  put_open :: "string \<Rightarrow> error + os_file"
  put_stat_err :: "error option"
  put_stdin_pipe :: "error + sink"
  put_run :: "string \<Rightarrow> error option"
  put_bg_done :: bool

text \<open>
  What an upload does: the error \<open>scpPut\<close> returns, and what its goroutine does to the
  outside: the bytes it writes to the session's input stream, the calls of the progress
  callback, the number of payload bytes \<open>io.Copy\<close> wrote and the state in which it leaves
  \<open>errCh\<close>.
\<close>

record put_result =
  put_err :: "error option"
  put_wire :: string
  put_progress :: "(int \<times> int) list"
  put_copied :: int
  put_slot :: slot

text \<open>\<open>fmt.Fprintf(w, "C%#o %d %s\n", perm, size, name)\<close>.\<close>

definition control_line :: "nat \<Rightarrow> int \<Rightarrow> string \<Rightarrow> string" where
  "control_line perm sz base =
     ''C'' @ fmt_sharp_o perm @ '' '' @ fmt_d sz @ '' '' @ base @ ''\<newline>''"

text \<open>
  The goroutine of \<open>scpPut\<close>. The results of the two \<open>Fprint\<close> calls are not looked at.
  The deferred \<open>Close\<close> of the pipe ends the stream after the last write; it writes
  nothing and is left out.
\<close>

definition scpPut_bg :: "put_world \<Rightarrow> os_file \<Rightarrow> string \<Rightarrow> slot \<times> string \<times> (int \<times> int) list \<times> int" where
  "scpPut_bg w f src =
     (case put_stdin_pipe w of
        Inl e \<Rightarrow> (Pending e, [], [], 0)
      | Inr w0 \<Rightarrow>
         (let (n1, e1, w1) =
                sink_Write w0 (control_line (Perm (f_mode f)) (f_size f) (path_Base src));
              p = \<lparr>pw_writer = w1, pw_done = 0, pw_total = f_size f, pw_progress = []\<rparr>;
              (n, err, p') = io_Copy p (chunks (f_reader f)) (final (f_reader f))
          in case err of
               Some e \<Rightarrow> (Pending e, written (pw_writer p'), pw_progress p', n)
             | None \<Rightarrow>
                (let (n2, e2, w2) = sink_Write (pw_writer p') [NUL]
                 in (Closed, written w2, pw_progress p', n))))"

definition scpPut :: "put_world \<Rightarrow> string \<Rightarrow> string \<Rightarrow> put_result" where
  "scpPut w src dest =
     (case put_open w src of
        Inl e \<Rightarrow> \<lparr>put_err = Some e, put_wire = [], put_progress = [], put_copied = 0,
                  put_slot = Empty\<rparr>
      | Inr f \<Rightarrow>
         (case put_stat_err w of
            Some e \<Rightarrow> \<lparr>put_err = Some e, put_wire = [], put_progress = [], put_copied = 0,
                       put_slot = Empty\<rparr>
          | None \<Rightarrow>
             (let (s, wire, pc, n) = scpPut_bg w f src;
                  err = put_run w (''rm -f '' @ dest @ '' ; scp -t '' @ dest)
              in \<lparr>put_err = select_join err (if put_bg_done w then s else Empty),
                  put_wire = wire, put_progress = pc, put_copied = n, put_slot = s\<rparr>)))"

subsection \<open>Download\<close>

text \<open>
  What \<open>fmt.Sscanf(string(line), "C%o %d %s", &mode, &size, &name)\<close> returns and stores:
  the number of items parsed, the error, and the three variables.
\<close>

record scan =
  sc_n :: int
  sc_err :: "error option"
  sc_mode :: nat
  sc_size :: int
  sc_name :: string

text \<open>
  What the outside answers to a download: \<open>session.StdoutPipe\<close>, \<open>session.StdinPipe\<close>,
  \<open>r.ReadLine\<close>, the reads of \<open>r\<close> after that line, \<open>fmt.Sscanf\<close>, \<open>os.Create\<close> (the new,
  empty file), \<open>f.Chmod\<close>, \<open>session.Run\<close>, and whether the goroutine is over when the
  \<open>select\<close> is made.
\<close>

record get_world =
  get_stdout_pipe_err :: "error option"
  get_stdin_pipe :: "error + sink"
  get_line :: "error + string"
  get_payload :: reader
  get_Sscanf :: "string \<Rightarrow> scan"
  get_create :: "string \<Rightarrow> error + sink"
  get_chmod_err :: "nat \<Rightarrow> error option"
  get_run :: "string \<Rightarrow> error option"
  get_bg_done :: bool

text \<open>A file the download has created: its path, the mode set by \<open>Chmod\<close>, its bytes.\<close>

record local_file =
  lf_path :: string
  lf_mode :: "nat option"
  lf_content :: string

text \<open>
  What a download does: the error \<open>scpGet\<close> returns, and what its goroutine does to the
  outside: the acknowledgement bytes it writes to the session's input stream, the file it
  creates, the calls of the progress callback, the number of payload bytes \<open>io.Copy\<close>
  wrote and the state in which it leaves \<open>errCh\<close>.
\<close>

record get_result =
  get_err :: "error option"
  get_acks :: string
  get_file :: "local_file option"
  get_progress :: "(int \<times> int) list"
  get_copied :: int
  get_slot :: slot

text \<open>
  The goroutine of \<open>scpGet\<close>. The scanner's error is tested before its count; the name
  it stored is not used; the results of the three \<open>Fprint\<close> calls are not looked at.
  The deferred \<open>Close\<close> calls of the pipe and of the file write nothing and are left out.
\<close>

definition scpGet_bg ::
  "get_world \<Rightarrow> string \<Rightarrow> slot \<times> string \<times> local_file option \<times> (int \<times> int) list \<times> int" where
  "scpGet_bg w dest =
     (case get_stdout_pipe_err w of
        Some e \<Rightarrow> (Pending e, [], None, [], 0)
      | None \<Rightarrow>
     (case get_stdin_pipe w of
        Inl e \<Rightarrow> (Pending e, [], None, [], 0)
      | Inr wp0 \<Rightarrow>
     (let (n1, e1, wp1) = sink_Write wp0 [NUL]
      in case get_line w of
        Inl e \<Rightarrow> (Pending e, written wp1, None, [], 0)
      | Inr line \<Rightarrow>
     (let sc = get_Sscanf w line
      in case sc_err sc of
        Some e \<Rightarrow> (Pending e, written wp1, None, [], 0)
      | None \<Rightarrow>
     (if sc_n sc \<noteq> 3 then (Pending (errors_New line), written wp1, None, [], 0)
      else case get_create w dest of
        Inl e \<Rightarrow> (Pending e, written wp1, None, [], 0)
      | Inr f \<Rightarrow>
     (case get_chmod_err w (sc_mode sc) of
        Some e \<Rightarrow>
          (Pending e, written wp1,
           Some \<lparr>lf_path = dest, lf_mode = None, lf_content = written f\<rparr>, [], 0)
      | None \<Rightarrow>
     (let (n2, e2, wp2) = sink_Write wp1 [NUL];
          p = \<lparr>pw_writer = f, pw_done = 0, pw_total = sc_size sc, pw_progress = []\<rparr>;
          src = LimitReader (get_payload w) (sc_size sc);
          (n, err, p') = io_Copy p (chunks src) (final src);
          made = \<lparr>lf_path = dest, lf_mode = Some (sc_mode sc),
                  lf_content = written (pw_writer p')\<rparr>
      in case err of
           Some e \<Rightarrow> (Pending e, written wp2, Some made, pw_progress p', n)
         | None \<Rightarrow>
            (let (n3, e3, wp3) = sink_Write wp2 [NUL]
             in (Closed, written wp3, Some made, pw_progress p', n)))))))))"

definition scpGet :: "get_world \<Rightarrow> string \<Rightarrow> string \<Rightarrow> get_result" where
  "scpGet w src dest =
     (let (s, acks, made, pc, n) = scpGet_bg w dest;
          err = get_run w (''scp -qrf '' @ src)
      in \<lparr>get_err = select_join err (if get_bg_done w then s else Empty),
          get_acks = acks, get_file = made, get_progress = pc, get_copied = n,
          get_slot = s\<rparr>)"

subsection \<open>Example transfers\<close>

text \<open>
  An upload in which every step succeeds: an eleven-byte file of mode \<open>0644\<close>, read in
  two slices, and an input stream that never fails.
\<close>

definition demo_file :: os_file where
  "demo_file = \<lparr>f_mode = 420, f_size = 11,
                 f_reader = \<lparr>chunks = [''hello '', ''world''], final = None\<rparr>\<rparr>"

definition fresh_stream :: sink where
  "fresh_stream = \<lparr>written = [], room = None, write_err = Foreign ''broken pipe''\<rparr>"

definition put_ok :: put_world where
  "put_ok = \<lparr>put_open = (\<lambda>p. Inr demo_file), put_stat_err = None,
              put_stdin_pipe = Inr fresh_stream, put_run = (\<lambda>cmd. None), put_bg_done = True\<rparr>"

text \<open>
  An upload whose goroutine asks for the input pipe after \<open>Run\<close> has started the remote
  command: \<open>StdinPipe\<close> fails, the remote \<open>scp\<close> gets no input and exits with status 1.
\<close>

definition put_late_pipe :: put_world where
  "put_late_pipe =
     \<lparr>put_open = (\<lambda>p. Inr demo_file), put_stat_err = None,
      put_stdin_pipe = Inl (Foreign ''ssh: StdinPipe after process started''),
      put_run = (\<lambda>cmd. Some (Foreign ''Process exited with status 1'')),
      put_bg_done = True\<rparr>"

text \<open>
  What \<open>fmt.Sscanf\<close> with the format \<open>C%o %d %s\<close> returns on the lines of the examples:
  three items and no error on a well-formed control line; on \<open>hello\<close> no item and the
  error \<open>input does not match format\<close>; on \<open>C0644 10\<close>, where the name is missing, two
  items and the error \<open>unexpected EOF\<close>.
\<close>

definition demo_Sscanf :: "string \<Rightarrow> scan" where
  "demo_Sscanf line =
     (if line = ''C0644 10 data.bin''
      then \<lparr>sc_n = 3, sc_err = None, sc_mode = 420, sc_size = 10, sc_name = ''data.bin''\<rparr>
      else if line = ''C0644 0 empty.txt''
      then \<lparr>sc_n = 3, sc_err = None, sc_mode = 420, sc_size = 0, sc_name = ''empty.txt''\<rparr>
      else if line = ''C0644 10''
      then \<lparr>sc_n = 2, sc_err = Some (Foreign ''unexpected EOF''), sc_mode = 420, sc_size = 10,
            sc_name = []\<rparr>
      else \<lparr>sc_n = 0, sc_err = Some (Foreign ''input does not match format''), sc_mode = 0,
            sc_size = 0, sc_name = []\<rparr>)"

text \<open>
  A download in which every step succeeds: the remote sends the control line, ten payload
  bytes in two slices and its closing NUL.
\<close>

definition get_ok :: get_world where
  "get_ok =
     \<lparr>get_stdout_pipe_err = None, get_stdin_pipe = Inr fresh_stream,
      get_line = Inr ''C0644 10 data.bin'',
      get_payload = \<lparr>chunks = [''01234'', [CHR ''5'', CHR ''6'', CHR ''7'', CHR ''8'', CHR ''9'', NUL]],
                     final = None\<rparr>,
      get_Sscanf = demo_Sscanf, get_create = (\<lambda>p. Inr fresh_stream),
      get_chmod_err = (\<lambda>m. None), get_run = (\<lambda>cmd. None), get_bg_done = True\<rparr>"

text \<open>The same download, but the remote stream ends after three payload bytes.\<close>

definition get_short :: get_world where
  "get_short = get_ok\<lparr>get_payload := \<lparr>chunks = [''abc''], final = None\<rparr>\<rparr>"

text \<open>A download whose first line is not a control line.\<close>

definition get_bad_line :: get_world where
  "get_bad_line = get_ok\<lparr>get_line := Inr ''hello'', get_payload := \<lparr>chunks = [], final = None\<rparr>\<rparr>"



text \<open>A download whose goroutine has not reported when \<open>Run\<close> returns with an error.\<close>

definition get_slow :: get_world where
  "get_slow = get_ok\<lparr>get_run := (\<lambda>cmd. Some (Foreign ''Process exited with status 1'')),
                      get_bg_done := False\<rparr>"

text \<open>The same for an upload.\<close>

definition put_slow :: put_world where
  "put_slow = put_ok\<lparr>put_run := (\<lambda>cmd. Some (Foreign ''Process exited with status 1'')),
                      put_bg_done := False\<rparr>"



subsection \<open>Reference notions for the properties\<close>

text \<open>
  The progress calls of a copy none of whose writes fails: one call for every non-empty
  slice, with the count of bytes written up to and including that slice, and the total.
\<close>

fun marks :: "int \<Rightarrow> int \<Rightarrow> string list \<Rightarrow> (int \<times> int) list" where
  "marks d t [] = []"
| "marks d t (c # cs) =
     (if c = [] then marks d t cs
      else (d + int (length c), t) # marks (d + int (length c)) t cs)"

text \<open>
  A readable local file with the size \<open>Stat\<close> reported: reading it ends with \<open>io.EOF\<close>
  and yields as many bytes as its size says.
\<close>

definition readable :: "os_file \<Rightarrow> bool" where
  "readable f =
     (final (f_reader f) = None \<and> f_size f = int (length (concat (chunks (f_reader f)))))"



text \<open>
  Rounding a rational to the nearest integer, ties to even, and rounding a rational of
  binary exponent \<open>e\<close> to 53 bits.
\<close>

definition rne :: "rat \<Rightarrow> int" where
  "rne x =
     (let f = \<lfloor>x\<rfloor>; r = x - of_int f
      in if r < 1 / 2 then f else if 1 / 2 < r then f + 1 else if even f then f else f + 1)"


section \<open>Properties of the connection pool\<close>

lemma newSSHClient_calls:
  "newSSHClient w u h s = (r, s') \<Longrightarrow>
     calls s' = calls s @ [Handshake u h] \<and> clients s' = clients s"
  by (auto simp: newSSHClient_def getKnownHosts_def Let_def
           split: option.splits if_splits sum.splits prod.splits)

lemma NewSession_on_calls:
  "NewSession_on w c s = (r, s') \<Longrightarrow>
     calls s' = calls s @ [NewSession c] \<and> clients s' = clients s"
  by (auto simp: NewSession_on_def split: sum.splits)

lemma newSSHSession_live:
  assumes "cached_client s u h = Some c"
  shows "newSSHSession w u h s = NewSession_on w c s"
  using assms
  by (auto simp: newSSHSession_def cached_client_def Let_def split: option.splits)

lemma newSSHSession_first:
  assumes "cached_client s u h = None" and "newSSHSession w u h s = (Ok x, s')"
  shows "\<exists>c. cached_client s' u h = Some c
           \<and> calls s' = calls s @ [Handshake u h, NewSession c]"
proof -
  let ?t = "target_of u h"
  obtain s1 where s1: "s1 = (case clients s ?t of
                      None \<Rightarrow> s\<lparr>clients := (clients s)(?t \<mapsto> None)\<rparr> | Some entry \<Rightarrow> s)"
    by simp
  have calls1: "calls s1 = calls s"
    by (simp add: s1 split: option.splits)
  have run: "newSSHSession w u h s =
      (case newSSHClient w u h s1 of
         (Ok c, s2) \<Rightarrow> NewSession_on w c (s2\<lparr>clients := (clients s2)(?t \<mapsto> Some c)\<rparr>)
       | (Failed e, s2) \<Rightarrow> (Failed e, s2)
       | (Fatal e, s2) \<Rightarrow> (Fatal e, s2))"
    using assms(1)
    by (auto simp: newSSHSession_def cached_client_def Let_def s1 split: option.splits)
  obtain r s2 where hs: "newSSHClient w u h s1 = (r, s2)"
    by (cases "newSSHClient w u h s1") auto
  from assms(2) run hs obtain c where r: "r = Ok c"
    and ns: "NewSession_on w c (s2\<lparr>clients := (clients s2)(?t \<mapsto> Some c)\<rparr>) = (Ok x, s')"
    by (cases r) auto
  from newSSHClient_calls [OF hs] calls1
  have c2: "calls s2 = calls s @ [Handshake u h]" by simp
  from NewSession_on_calls [OF ns] c2
  have "calls s' = calls s @ [Handshake u h, NewSession c]"
    and "clients s' ?t = Some (Some c)"
    by simp_all
  then show ?thesis by (auto simp: cached_client_def)
qed

lemma newSSHSession_keeps_live:
  assumes "newSSHSession w u h s = (Ok x, s')"
  shows "\<exists>c. cached_client s' u h = Some c"
proof (cases "cached_client s u h")
  case None
  from newSSHSession_first [OF None assms] show ?thesis by blast
next
  case (Some c)
  from assms newSSHSession_live [OF Some, of w]
  have "NewSession_on w c s = (Ok x, s')" by simp
  from NewSession_on_calls [OF this] Some show ?thesis
    by (simp add: cached_client_def)
qed

text \<open>
  C3. Two sequential successful session requests for one (user, host) target: the second
  call makes no handshake, it opens its session on the client the first call left in the
  cache; and when the target had no live client before the first call, exactly one
  handshake is made over the two calls.
\<close>

theorem C3_second_session_reuses_client:
  assumes "newSSHSession w u h s = (Ok x1, s1)"
      and "newSSHSession w u h s1 = (Ok x2, s2)"
  shows "\<exists>c. cached_client s1 u h = Some c
             \<and> calls s2 = calls s1 @ [NewSession c]
             \<and> handshakes s2 = handshakes s1
             \<and> cached_client s2 u h = Some c
             \<and> (if cached_client s u h = None
                 then handshakes s2 = handshakes s + 1
                 else handshakes s2 = handshakes s)"
proof -
  from newSSHSession_keeps_live [OF assms(1)]
  obtain c where live: "cached_client s1 u h = Some c" by blast
  from assms(2) newSSHSession_live [OF live, of w]
  have "NewSession_on w c s1 = (Ok x2, s2)" by simp
  from NewSession_on_calls [OF this]
  have c2: "calls s2 = calls s1 @ [NewSession c]" and m2: "clients s2 = clients s1"
    by simp_all
  have h2: "handshakes s2 = handshakes s1"
    by (simp add: handshakes_def c2)
  have live2: "cached_client s2 u h = Some c"
    using live by (simp add: cached_client_def m2)
  have first: "if cached_client s u h = None
               then handshakes s1 = handshakes s + 1 else handshakes s1 = handshakes s"
  proof (cases "cached_client s u h")
    case None
    from newSSHSession_first [OF None assms(1)] show ?thesis
      using None by (auto simp: handshakes_def)
  next
    case (Some c0)
    from assms(1) newSSHSession_live [OF Some, of w]
    have "NewSession_on w c0 s = (Ok x1, s1)" by simp
    from NewSession_on_calls [OF this] show ?thesis
      using Some by (simp add: handshakes_def)
  qed
  from live c2 h2 live2 first show ?thesis by (auto split: if_splits)
qed

lemma demo_pool1_run:
  "newSSHSession demo_world ''cockroach'' ''h1'' empty_pool =
     (Ok 1, \<lparr>clients = [''cockroach@h1'' \<mapsto> Some 7], knownHostsOnce = True,
             calls = [Handshake ''cockroach'' ''h1'', NewSession 7]\<rparr>)"
  by (simp add: newSSHSession_def newSSHClient_def getKnownHosts_def NewSession_on_def
        demo_world_def empty_pool_def target_of_def Let_def)

lemma demo_pool2_run:
  "newSSHSession demo_world ''cockroach'' ''h1'' demo_pool1 =
     (Ok 2, \<lparr>clients = [''cockroach@h1'' \<mapsto> Some 7], knownHostsOnce = True,
             calls = [Handshake ''cockroach'' ''h1'', NewSession 7, NewSession 7]\<rparr>)"
proof -
  have p1: "demo_pool1 = \<lparr>clients = [''cockroach@h1'' \<mapsto> Some 7], knownHostsOnce = True,
             calls = [Handshake ''cockroach'' ''h1'', NewSession 7]\<rparr>"
    by (simp add: demo_pool1_def demo_pool1_run)
  show ?thesis
    unfolding p1
    by (simp add: newSSHSession_def NewSession_on_def demo_world_def target_of_def Let_def)
qed

theorem C3_second_session_reuses_client_witness:
  "newSSHSession demo_world ''cockroach'' ''h1'' empty_pool = (Ok 1, demo_pool1)
   \<and> newSSHSession demo_world ''cockroach'' ''h1'' demo_pool1 = (Ok 2, demo_pool2)
   \<and> cached_client empty_pool ''cockroach'' ''h1'' = None
   \<and> handshakes empty_pool = 0
   \<and> handshakes demo_pool2 = 1
   \<and> handshakes demo_pool2 = handshakes demo_pool1
   \<and> calls demo_pool2 = calls demo_pool1 @ [NewSession 7]"
proof -
  have r1: "newSSHSession demo_world ''cockroach'' ''h1'' empty_pool = (Ok 1, demo_pool1)"
    by (simp add: demo_pool1_def demo_pool1_run)
  have r2: "newSSHSession demo_world ''cockroach'' ''h1'' demo_pool1 = (Ok 2, demo_pool2)"
    by (simp add: demo_pool2_def demo_pool2_run)
  have fresh: "cached_client empty_pool ''cockroach'' ''h1'' = None"
    by (simp add: cached_client_def empty_pool_def)
  have zero: "handshakes empty_pool = 0"
    by (simp add: handshakes_def empty_pool_def)
  have live: "cached_client demo_pool1 ''cockroach'' ''h1'' = Some 7"
    by (simp add: demo_pool1_def demo_pool1_run cached_client_def target_of_def)
  from C3_second_session_reuses_client [OF r1 r2] fresh zero live
  show ?thesis using r1 r2 by auto
qed

section \<open>Properties of the fan-out executor\<close>










section \<open>Properties of the file transfer\<close>

subsection \<open>The join\<close>

lemma scpPut_err:
  assumes "put_open w src = Inr f" and "put_stat_err w = None"
  shows "put_err (scpPut w src dest) =
           select_join (put_run w (''rm -f '' @ dest @ '' ; scp -t '' @ dest))
             (if put_bg_done w then put_slot (scpPut w src dest) else Empty)"
  using assms by (simp add: scpPut_def Let_def split: prod.splits)

lemma scpGet_err:
  "get_err (scpGet w src dest) =
     select_join (get_run w (''scp -qrf '' @ src))
       (if get_bg_done w then get_slot (scpGet w src dest) else Empty)"
  by (simp add: scpGet_def Let_def split: prod.splits)

text \<open>
  C1, as the code has it. In an upload and in a download the error slot is consulted,
  without blocking, whatever the foreground command returned: an error of the background
  task that is waiting in the slot is what the caller gets, also when the foreground
  command failed with an error of its own; when the background task has not reported yet,
  the caller gets the result of the foreground command, its error or its success.
\<close>

theorem C1_select_consults_slot_always:
  "(put_open w src = Inr f \<and> put_stat_err w = None \<longrightarrow>
      (\<not> put_bg_done w \<longrightarrow>
         put_err (scpPut w src dest) = put_run w (''rm -f '' @ dest @ '' ; scp -t '' @ dest))
      \<and> (put_bg_done w \<and> put_slot (scpPut w src dest) = Pending e \<longrightarrow>
         put_err (scpPut w src dest) = Some e))
   \<and> (\<not> get_bg_done g \<longrightarrow> get_err (scpGet g gsrc gdest) = get_run g (''scp -qrf '' @ gsrc))
   \<and> (get_bg_done g \<and> get_slot (scpGet g gsrc gdest) = Pending e' \<longrightarrow>
         get_err (scpGet g gsrc gdest) = Some e')"
proof (intro conjI impI)
  assume a: "put_open w src = Inr f \<and> put_stat_err w = None"
  { assume "\<not> put_bg_done w"
    with a show "put_err (scpPut w src dest) =
                   put_run w (''rm -f '' @ dest @ '' ; scp -t '' @ dest)"
      by (simp add: scpPut_err select_join_def) }
  { assume "put_bg_done w \<and> put_slot (scpPut w src dest) = Pending e"
    with a show "put_err (scpPut w src dest) = Some e"
      by (simp add: scpPut_err select_join_def) }
next
  assume "\<not> get_bg_done g"
  then show "get_err (scpGet g gsrc gdest) = get_run g (''scp -qrf '' @ gsrc)"
    by (simp add: scpGet_err select_join_def)
next
  assume "get_bg_done g \<and> get_slot (scpGet g gsrc gdest) = Pending e'"
  then show "get_err (scpGet g gsrc gdest) = Some e'"
    by (simp add: scpGet_err select_join_def)
qed

lemma put_late_pipe_run:
  "scpPut put_late_pipe ''/home/u/data.bin'' ''/tmp/data.bin'' =
     \<lparr>put_err = Some (Foreign ''ssh: StdinPipe after process started''),
      put_wire = [], put_progress = [], put_copied = 0,
      put_slot = Pending (Foreign ''ssh: StdinPipe after process started'')\<rparr>"
  by (simp add: scpPut_def scpPut_bg_def put_late_pipe_def select_join_def)

lemma get_bad_line_run:
  "scpGet get_bad_line ''/tmp/data.bin'' ''/home/u/data.bin'' =
     \<lparr>get_err = Some (Foreign ''input does not match format''),
      get_acks = [NUL], get_file = None, get_progress = [], get_copied = 0,
      get_slot = Pending (Foreign ''input does not match format'')\<rparr>"
  by (simp add: scpGet_def scpGet_bg_def get_bad_line_def get_ok_def demo_Sscanf_def
        fresh_stream_def sink_Write_def select_join_def Let_def)

text \<open>
  The claim C1 as stated fails: here the foreground command ends with the error
  \<open>Process exited with status 1\<close>, and the caller gets the error of the background task.
\<close>

theorem C1_counterexample:
  "put_run put_late_pipe ''rm -f /tmp/data.bin ; scp -t /tmp/data.bin''
     = Some (Foreign ''Process exited with status 1'')
   \<and> put_err (scpPut put_late_pipe ''/home/u/data.bin'' ''/tmp/data.bin'')
     = Some (Foreign ''ssh: StdinPipe after process started'')
   \<and> put_err (scpPut put_late_pipe ''/home/u/data.bin'' ''/tmp/data.bin'')
     \<noteq> put_run put_late_pipe ''rm -f /tmp/data.bin ; scp -t /tmp/data.bin''"
  by (simp add: put_late_pipe_run) (simp add: put_late_pipe_def)

theorem C1_select_consults_slot_always_witness:
  "put_open put_late_pipe ''/home/u/data.bin'' = Inr demo_file
   \<and> put_stat_err put_late_pipe = None
   \<and> put_bg_done put_late_pipe
   \<and> put_slot (scpPut put_late_pipe ''/home/u/data.bin'' ''/tmp/data.bin'')
       = Pending (Foreign ''ssh: StdinPipe after process started'')
   \<and> put_err (scpPut put_late_pipe ''/home/u/data.bin'' ''/tmp/data.bin'')
       = Some (Foreign ''ssh: StdinPipe after process started'')
   \<and> \<not> get_bg_done get_slow
   \<and> get_err (scpGet get_slow ''/tmp/data.bin'' ''/home/u/data.bin'')
       = Some (Foreign ''Process exited with status 1'')
   \<and> put_open put_slow ''/home/u/data.bin'' = Inr demo_file
   \<and> put_stat_err put_slow = None
   \<and> \<not> put_bg_done put_slow
   \<and> put_err (scpPut put_slow ''/home/u/data.bin'' ''/tmp/data.bin'')
       = Some (Foreign ''Process exited with status 1'')
   \<and> get_bg_done get_bad_line
   \<and> get_slot (scpGet get_bad_line ''/tmp/data.bin'' ''/home/u/data.bin'')
       = Pending (Foreign ''input does not match format'')
   \<and> get_err (scpGet get_bad_line ''/tmp/data.bin'' ''/home/u/data.bin'')
       = Some (Foreign ''input does not match format'')"
proof -
  have p1: "put_open put_late_pipe ''/home/u/data.bin'' = Inr demo_file
            \<and> put_stat_err put_late_pipe = None"
    and p2: "put_bg_done put_late_pipe"
    by (simp_all add: put_late_pipe_def)
  have p3: "put_slot (scpPut put_late_pipe ''/home/u/data.bin'' ''/tmp/data.bin'')
              = Pending (Foreign ''ssh: StdinPipe after process started'')"
    by (simp add: put_late_pipe_run)
  have g1: "\<not> get_bg_done get_slow"
    and g2: "get_run get_slow (''scp -qrf '' @ ''/tmp/data.bin'')
               = Some (Foreign ''Process exited with status 1'')"
    by (simp_all add: get_slow_def get_ok_def)
  have q1: "put_open put_slow ''/home/u/data.bin'' = Inr demo_file \<and> put_stat_err put_slow = None"
    and q2: "\<not> put_bg_done put_slow"
    and q3: "put_run put_slow (''rm -f '' @ ''/tmp/data.bin'' @ '' ; scp -t '' @ ''/tmp/data.bin'')
               = Some (Foreign ''Process exited with status 1'')"
    by (simp_all add: put_slow_def put_ok_def)
  have h1: "get_bg_done get_bad_line"
    by (simp add: get_bad_line_def get_ok_def)
  have h2: "get_slot (scpGet get_bad_line ''/tmp/data.bin'' ''/home/u/data.bin'')
              = Pending (Foreign ''input does not match format'')"
    by (simp add: get_bad_line_run)
  from C1_select_consults_slot_always
         [of put_late_pipe "''/home/u/data.bin''" demo_file "''/tmp/data.bin''"
             "Foreign ''ssh: StdinPipe after process started''"
             get_slow "''/tmp/data.bin''" "''/home/u/data.bin''"]
       p1 p2 p3 g1 g2
  have A: "put_err (scpPut put_late_pipe ''/home/u/data.bin'' ''/tmp/data.bin'')
             = Some (Foreign ''ssh: StdinPipe after process started'')"
    and B: "get_err (scpGet get_slow ''/tmp/data.bin'' ''/home/u/data.bin'')
             = Some (Foreign ''Process exited with status 1'')"
    by simp_all
  from C1_select_consults_slot_always
         [of put_slow "''/home/u/data.bin''" demo_file "''/tmp/data.bin''" _
             get_bad_line "''/tmp/data.bin''" "''/home/u/data.bin''"
             "Foreign ''input does not match format''"]
       q1 q2 q3 h1 h2
  have C: "put_err (scpPut put_slow ''/home/u/data.bin'' ''/tmp/data.bin'')
             = Some (Foreign ''Process exited with status 1'')"
    and D: "get_err (scpGet get_bad_line ''/tmp/data.bin'' ''/home/u/data.bin'')
             = Some (Foreign ''input does not match format'')"
    by simp_all
  from p1 p2 p3 g1 q1 q2 h1 h2 A B C D show ?thesis by simp
qed

subsection \<open>The control line of a download\<close>

lemma scpGet_slot: "get_slot (scpGet w src dest) = fst (scpGet_bg w dest)"
  by (simp add: scpGet_def Let_def split: prod.splits)






subsection \<open>Streams and copies\<close>

lemma sink_Write_unlimited:
  "room k = None \<Longrightarrow> sink_Write k b = (length b, None, k\<lparr>written := written k @ b\<rparr>)"
  by (simp add: sink_Write_def)


lemma pw_Write_unlimited:
  "room (pw_writer p) = None \<Longrightarrow>
     pw_Write p b =
       (length b, None,
        p\<lparr>pw_writer := (pw_writer p)\<lparr>written := written (pw_writer p) @ b\<rparr>,
          pw_done := pw_done p + int (length b),
          pw_progress := pw_progress p @ [(pw_done p + int (length b), pw_total p)]\<rparr>)"
  by (simp add: pw_Write_def sink_Write_unlimited)

lemma io_Copy_unlimited:
  "room (pw_writer p) = None \<Longrightarrow>
     io_Copy p cs fin =
       (int (length (concat cs)), fin,
        p\<lparr>pw_writer := (pw_writer p)\<lparr>written := written (pw_writer p) @ concat cs\<rparr>,
          pw_done := pw_done p + int (length (concat cs)),
          pw_progress := pw_progress p @ marks (pw_done p) (pw_total p) cs\<rparr>)"
proof (induction cs arbitrary: p)
  case Nil
  then show ?case by simp
next
  case (Cons c cs)
  let ?p = "p\<lparr>pw_writer := (pw_writer p)\<lparr>written := written (pw_writer p) @ c\<rparr>,
              pw_done := pw_done p + int (length c),
              pw_progress := pw_progress p @ [(pw_done p + int (length c), pw_total p)]\<rparr>"
  have room': "room (pw_writer ?p) = None"
    using Cons.prems by simp
  show ?case
  proof (cases "c = []")
    case True
    then show ?thesis using Cons.IH [OF Cons.prems] by simp
  next
    case False
    then show ?thesis
      using Cons.IH [OF room'] Cons.prems
      by (simp add: pw_Write_unlimited)
  qed
qed



lemma limited_concat: "concat (fst (limited n cs fin)) = take (nat n) (concat cs)"
proof (induction cs arbitrary: n)
  case Nil
  then show ?case by simp
next
  case (Cons c cs)
  show ?case
  proof (cases "n \<le> 0")
    case True
    then show ?thesis by simp
  next
    case False
    show ?thesis
    proof (cases "int (length c) \<le> n")
      case True
      then have "nat n - length c = nat (n - int (length c))" by simp
      with True False Cons.IH [of "n - int (length c)"] show ?thesis
        by (simp add: split_def Let_def)
    next
      case False
      then show ?thesis using \<open>\<not> n \<le> 0\<close> by simp
    qed
  qed
qed

lemma limited_final:
  "snd (limited n cs fin) = (if int (length (concat cs)) < n then fin else None)"
proof (induction cs arbitrary: n)
  case Nil
  then show ?case by simp
next
  case (Cons c cs)
  then show ?case by (auto simp: split_def Let_def)
qed




lemma marks_empty: "concat cs = [] \<Longrightarrow> marks d t cs = []"
  by (induction cs arbitrary: d) auto

subsection \<open>The wire format of an upload\<close>

lemma scpPut_fields:
  assumes "put_open w src = Inr f" and "put_stat_err w = None"
  shows "put_slot (scpPut w src dest) = fst (scpPut_bg w f src)"
    and "put_wire (scpPut w src dest) = fst (snd (scpPut_bg w f src))"
    and "put_progress (scpPut w src dest) = fst (snd (snd (scpPut_bg w f src)))"
    and "put_copied (scpPut w src dest) = snd (snd (snd (scpPut_bg w f src)))"
  using assms by (simp_all add: scpPut_def Let_def split: prod.splits)

lemma scpPut_bg_unlimited:
  assumes "put_stdin_pipe w = Inr k" and "room k = None"
  shows "scpPut_bg w f src =
     (let line = control_line (Perm (f_mode f)) (f_size f) (path_Base src);
          body = concat (chunks (f_reader f));
          pc = marks 0 (f_size f) (chunks (f_reader f))
      in case final (f_reader f) of
           Some e \<Rightarrow> (Pending e, written k @ line @ body, pc, int (length body))
         | None \<Rightarrow> (Closed, written k @ line @ body @ [NUL], pc, int (length body)))"
  using assms
  by (simp add: scpPut_bg_def sink_Write_unlimited io_Copy_unlimited Let_def
           split: option.splits)

text \<open>
  C5. An upload of a readable local file with size \<open>s\<close> (reading it yields \<open>s\<close> bytes and
  then \<open>io.EOF\<close>), permission bits \<open>m\<close> and path \<open>src\<close>, over a fresh input stream whose
  writes do not fail: the bytes written to the stream are the control line, that is
  \<open>C\<close>, the octal digits of \<open>m\<close> after a leading zero, a space, the decimal digits of
  \<open>s\<close>, a space, the base name of \<open>src\<close> and a newline; then the \<open>s\<close> bytes of the file;
  then one NUL byte.
\<close>

theorem C5_upload_wire_format:
  assumes "put_open w src = Inr f" and "put_stat_err w = None"
      and "put_stdin_pipe w = Inr k" and "room k = None" and "written k = []"
      and "readable f"
  shows "put_wire (scpPut w src dest) =
           ''C'' @ fmt_sharp_o (Perm (f_mode f)) @ '' '' @ fmt_d (f_size f) @ '' ''
             @ path_Base src @ ''\<newline>'' @ concat (chunks (f_reader f)) @ [NUL]
         \<and> int (length (concat (chunks (f_reader f)))) = f_size f"
proof -
  from assms(6) have eof: "final (f_reader f) = None"
    and size: "f_size f = int (length (concat (chunks (f_reader f))))"
    by (simp_all add: readable_def)
  have "put_wire (scpPut w src dest) = fst (snd (scpPut_bg w f src))"
    using assms(1,2) by (rule scpPut_fields)
  also have "\<dots> = control_line (Perm (f_mode f)) (f_size f) (path_Base src)
                    @ concat (chunks (f_reader f)) @ [NUL]"
    using eof assms(5) by (simp add: scpPut_bg_unlimited [OF assms(3,4)] Let_def)
  finally show ?thesis using size by (simp add: control_line_def)
qed

lemmas fmt_eval =
  fmt_d_def fmt_sharp_o_def Perm_def path_Base_def digits_base.simps digit_char_def
  control_line_def

lemmas transfer_eval =
  scpPut_def scpPut_bg_def scpGet_def scpGet_bg_def select_join_def sink_Write_def pw_Write_def
  LimitReader_def Let_def


theorem C5_upload_wire_format_witness:
  "put_open put_ok ''/home/u/data.bin'' = Inr demo_file
   \<and> put_stat_err put_ok = None
   \<and> put_stdin_pipe put_ok = Inr fresh_stream
   \<and> room fresh_stream = None \<and> written fresh_stream = []
   \<and> readable demo_file
   \<and> put_wire (scpPut put_ok ''/home/u/data.bin'' ''/tmp/data.bin'')
       = ''C0644 11 data.bin\<newline>hello world'' @ [NUL]
   \<and> ''C'' @ fmt_sharp_o (Perm 420) @ '' '' @ fmt_d 10000 @ '' ''
         @ path_Base ''/home/u/data.bin'' @ ''\<newline>'' = ''C0644 10000 data.bin\<newline>''"
proof -
  have h: "put_open put_ok ''/home/u/data.bin'' = Inr demo_file" "put_stat_err put_ok = None"
          "put_stdin_pipe put_ok = Inr fresh_stream"
          "room fresh_stream = None" "written fresh_stream = []"
    by (simp_all add: put_ok_def fresh_stream_def)
  have r: "readable demo_file"
    by (simp add: readable_def demo_file_def)
  have line: "''C'' @ fmt_sharp_o (Perm (f_mode demo_file)) @ '' '' @ fmt_d (f_size demo_file)
                @ '' '' @ path_Base ''/home/u/data.bin'' @ ''\<newline>''
              = ''C0644 11 data.bin\<newline>''"
    by (simp add: fmt_eval demo_file_def)
  have example: "''C'' @ fmt_sharp_o (Perm 420) @ '' '' @ fmt_d 10000 @ '' ''
         @ path_Base ''/home/u/data.bin'' @ ''\<newline>'' = ''C0644 10000 data.bin\<newline>''"
    by (simp add: fmt_eval)
  have body: "concat (chunks (f_reader demo_file)) = ''hello world''"
    by (simp add: demo_file_def)
  from C5_upload_wire_format [OF h r, of "''/tmp/data.bin''"]
  have "put_wire (scpPut put_ok ''/home/u/data.bin'' ''/tmp/data.bin'')
          = (''C'' @ fmt_sharp_o (Perm (f_mode demo_file)) @ '' '' @ fmt_d (f_size demo_file)
                @ '' '' @ path_Base ''/home/u/data.bin'' @ ''\<newline>'')
            @ concat (chunks (f_reader demo_file)) @ [NUL]"
    by simp
  then have "put_wire (scpPut put_ok ''/home/u/data.bin'' ''/tmp/data.bin'')
          = ''C0644 11 data.bin\<newline>hello world'' @ [NUL]"
    unfolding line body by simp
  with h r example show ?thesis by simp
qed

subsection \<open>The payload of a download\<close>

lemma scpGet_fields:
  "get_file (scpGet w src dest) = fst (snd (snd (scpGet_bg w dest)))"
  "get_progress (scpGet w src dest) = fst (snd (snd (snd (scpGet_bg w dest))))"
  "get_copied (scpGet w src dest) = snd (snd (snd (snd (scpGet_bg w dest))))"
  by (simp_all add: scpGet_def Let_def split: prod.splits)

text \<open>
  The goroutine of a download from the point where the copy starts, when the writes to
  the new file do not fail.
\<close>

lemma scpGet_bg_copy:
  assumes "get_stdout_pipe_err w = None" and "get_stdin_pipe w = Inr k"
      and "get_line w = Inr line"
      and "sc_err (get_Sscanf w line) = None" and "sc_n (get_Sscanf w line) = 3"
      and "get_create w dest = Inr f" and "room f = None"
      and "get_chmod_err w (sc_mode (get_Sscanf w line)) = None"
  shows "fst (scpGet_bg w dest) =
           (case final (LimitReader (get_payload w) (sc_size (get_Sscanf w line))) of
              Some e \<Rightarrow> Pending e | None \<Rightarrow> Closed)"
    and "fst (snd (snd (scpGet_bg w dest))) =
           Some \<lparr>lf_path = dest, lf_mode = Some (sc_mode (get_Sscanf w line)),
                 lf_content = written f @
                   concat (chunks (LimitReader (get_payload w) (sc_size (get_Sscanf w line))))\<rparr>"
    and "fst (snd (snd (snd (scpGet_bg w dest)))) =
           marks 0 (sc_size (get_Sscanf w line))
             (chunks (LimitReader (get_payload w) (sc_size (get_Sscanf w line))))"
    and "snd (snd (snd (snd (scpGet_bg w dest)))) =
           int (length (concat
             (chunks (LimitReader (get_payload w) (sc_size (get_Sscanf w line))))))"
  using assms
  by (simp_all add: scpGet_bg_def io_Copy_unlimited Let_def split: prod.splits option.splits)

lemma LimitReader_concat: "concat (chunks (LimitReader r n)) = take (nat n) (concat (chunks r))"
  using limited_concat [of n "chunks r" "final r"]
  by (simp add: LimitReader_def split_def Let_def)

lemma LimitReader_final:
  "final (LimitReader r n) = (if int (length (concat (chunks r))) < n then final r else None)"
  using limited_final [of n "chunks r" "final r"]
  by (simp add: LimitReader_def split_def Let_def)

text \<open>
  C8, as the code has it. In a download whose steps up to the copy succeed and whose
  writes to the new file do not fail, let the remote stream deliver fewer than \<open>size\<close>
  payload bytes. If the stream then ends with \<open>io.EOF\<close>, the short read is not an error:
  the bytes delivered are in the file, the background task closes the error channel
  without an error, and \<open>scpGet\<close> returns success when the foreground command
  succeeded. If the stream ends with a read error, the background task reports that
  error.
\<close>

theorem C8_short_read_at_eof_is_success:
  assumes "get_stdout_pipe_err w = None" and "get_stdin_pipe w = Inr k"
      and "get_line w = Inr line"
      and "sc_err (get_Sscanf w line) = None" and "sc_n (get_Sscanf w line) = 3"
      and "get_create w dest = Inr f" and "room f = None"
      and "get_chmod_err w (sc_mode (get_Sscanf w line)) = None"
      and short: "int (length (concat (chunks (get_payload w)))) < sc_size (get_Sscanf w line)"
  shows "(final (get_payload w) = None \<longrightarrow>
            get_slot (scpGet w src dest) = Closed
            \<and> (get_run w (''scp -qrf '' @ src) = None \<longrightarrow> get_err (scpGet w src dest) = None))
         \<and> (final (get_payload w) = Some e \<longrightarrow>
            get_slot (scpGet w src dest) = Pending e
            \<and> (get_bg_done w \<longrightarrow> get_err (scpGet w src dest) = Some e))
         \<and> get_copied (scpGet w src dest) = int (length (concat (chunks (get_payload w))))
         \<and> get_file (scpGet w src dest) =
             Some \<lparr>lf_path = dest, lf_mode = Some (sc_mode (get_Sscanf w line)),
                   lf_content = written f @ concat (chunks (get_payload w))\<rparr>"
proof -
  let ?n = "sc_size (get_Sscanf w line)"
  note c = scpGet_bg_copy [OF assms(1-8)]
  have fin: "final (LimitReader (get_payload w) ?n) = final (get_payload w)"
    using short by (simp add: LimitReader_final)
  have body: "concat (chunks (LimitReader (get_payload w) ?n)) = concat (chunks (get_payload w))"
    using short by (simp add: LimitReader_concat)
  have slot: "get_slot (scpGet w src dest) =
                (case final (get_payload w) of Some e \<Rightarrow> Pending e | None \<Rightarrow> Closed)"
    by (simp add: scpGet_slot c(1) fin)
  have copied: "get_copied (scpGet w src dest) = int (length (concat (chunks (get_payload w))))"
    by (simp add: scpGet_fields c(4) body)
  have made: "get_file (scpGet w src dest) =
             Some \<lparr>lf_path = dest, lf_mode = Some (sc_mode (get_Sscanf w line)),
                   lf_content = written f @ concat (chunks (get_payload w))\<rparr>"
    by (simp add: scpGet_fields c(2) body)
  show ?thesis
    using slot copied made by (simp add: scpGet_err select_join_def)
qed

lemma get_short_run:
  "scpGet get_short ''/tmp/data.bin'' ''/home/u/data.bin'' =
     \<lparr>get_err = None, get_acks = [NUL, NUL, NUL],
      get_file = Some \<lparr>lf_path = ''/home/u/data.bin'', lf_mode = Some 420, lf_content = ''abc''\<rparr>,
      get_progress = [(3, 10)], get_copied = 3, get_slot = Closed\<rparr>"
  by (simp add: transfer_eval get_short_def get_ok_def demo_Sscanf_def fresh_stream_def)

text \<open>
  The claim C8 as stated fails: the control line declares ten bytes, the stream ends
  after three, and the download returns success.
\<close>

theorem C8_counterexample:
  "get_line get_short = Inr ''C0644 10 data.bin''
   \<and> sc_size (get_Sscanf get_short ''C0644 10 data.bin'') = 10
   \<and> concat (chunks (get_payload get_short)) = ''abc''
   \<and> final (get_payload get_short) = None
   \<and> get_bg_done get_short
   \<and> get_slot (scpGet get_short ''/tmp/data.bin'' ''/home/u/data.bin'') = Closed
   \<and> get_err (scpGet get_short ''/tmp/data.bin'' ''/home/u/data.bin'') = None"
  by (simp add: get_short_run) (simp add: get_short_def get_ok_def demo_Sscanf_def)

theorem C8_short_read_at_eof_is_success_witness:
  "get_stdout_pipe_err get_short = None \<and> get_stdin_pipe get_short = Inr fresh_stream
   \<and> get_line get_short = Inr ''C0644 10 data.bin''
   \<and> sc_err (get_Sscanf get_short ''C0644 10 data.bin'') = None
   \<and> sc_n (get_Sscanf get_short ''C0644 10 data.bin'') = 3
   \<and> get_create get_short ''/home/u/data.bin'' = Inr fresh_stream \<and> room fresh_stream = None
   \<and> get_chmod_err get_short (sc_mode (get_Sscanf get_short ''C0644 10 data.bin'')) = None
   \<and> int (length (concat (chunks (get_payload get_short))))
        < sc_size (get_Sscanf get_short ''C0644 10 data.bin'')
   \<and> final (get_payload get_short) = None
   \<and> get_run get_short (''scp -qrf '' @ ''/tmp/data.bin'') = None
   \<and> get_slot (scpGet get_short ''/tmp/data.bin'' ''/home/u/data.bin'') = Closed
   \<and> get_err (scpGet get_short ''/tmp/data.bin'' ''/home/u/data.bin'') = None
   \<and> get_copied (scpGet get_short ''/tmp/data.bin'' ''/home/u/data.bin'') = 3"
proof -
  have h: "get_stdout_pipe_err get_short = None" "get_stdin_pipe get_short = Inr fresh_stream"
    "get_line get_short = Inr ''C0644 10 data.bin''"
    "sc_err (get_Sscanf get_short ''C0644 10 data.bin'') = None"
    "sc_n (get_Sscanf get_short ''C0644 10 data.bin'') = 3"
    "get_create get_short ''/home/u/data.bin'' = Inr fresh_stream" "room fresh_stream = None"
    "get_chmod_err get_short (sc_mode (get_Sscanf get_short ''C0644 10 data.bin'')) = None"
    "int (length (concat (chunks (get_payload get_short))))
        < sc_size (get_Sscanf get_short ''C0644 10 data.bin'')"
    by (simp_all add: get_short_def get_ok_def demo_Sscanf_def fresh_stream_def)
  have e: "final (get_payload get_short) = None"
          "get_run get_short (''scp -qrf '' @ ''/tmp/data.bin'') = None"
          "int (length (concat (chunks (get_payload get_short)))) = 3"
    by (simp_all add: get_short_def get_ok_def)
  from C8_short_read_at_eof_is_success [OF h, of "''/tmp/data.bin''" "Foreign []"] e
  have "get_slot (scpGet get_short ''/tmp/data.bin'' ''/home/u/data.bin'') = Closed"
       "get_err (scpGet get_short ''/tmp/data.bin'' ''/home/u/data.bin'') = None"
       "get_copied (scpGet get_short ''/tmp/data.bin'' ''/home/u/data.bin'') = 3"
    by simp_all
  with h e show ?thesis by simp
qed

subsection \<open>Declared size, payload and progress\<close>







lemma get_ok_run:
  "scpGet get_ok ''/tmp/data.bin'' ''/home/u/data.bin'' =
     \<lparr>get_err = None, get_acks = [NUL, NUL, NUL],
      get_file = Some \<lparr>lf_path = ''/home/u/data.bin'', lf_mode = Some 420,
                       lf_content = ''0123456789''\<rparr>,
      get_progress = [(5, 10), (10, 10)], get_copied = 10, get_slot = Closed\<rparr>"
  by (simp add: transfer_eval get_ok_def demo_Sscanf_def fresh_stream_def)





text \<open>
  C10. The name parsed from the control line of a download is ignored: whatever name
  the scanner stores, \<open>scpGet\<close> does the same (the same result, file, acknowledgements
  and progress calls), and the file it creates is at the path \<open>dest\<close> the caller gave.
\<close>

theorem C10_parsed_name_ignored:
  "scpGet (w\<lparr>get_Sscanf := (\<lambda>l. (get_Sscanf w l)\<lparr>sc_name := nm l\<rparr>)\<rparr>) src dest
     = scpGet w src dest
   \<and> (case get_file (scpGet w src dest) of None \<Rightarrow> True | Some lf \<Rightarrow> lf_path lf = dest)"
proof
  have "scpGet_bg (w\<lparr>get_Sscanf := (\<lambda>l. (get_Sscanf w l)\<lparr>sc_name := nm l\<rparr>)\<rparr>) dest
          = scpGet_bg w dest"
    by (simp add: scpGet_bg_def Let_def
          cong: option.case_cong sum.case_cong if_cong split: prod.splits)
  then show "scpGet (w\<lparr>get_Sscanf := (\<lambda>l. (get_Sscanf w l)\<lparr>sc_name := nm l\<rparr>)\<rparr>) src dest
          = scpGet w src dest"
    by (simp add: scpGet_def)
next
  show "case get_file (scpGet w src dest) of None \<Rightarrow> True | Some lf \<Rightarrow> lf_path lf = dest"
    by (simp add: scpGet_fields scpGet_bg_def Let_def
          split: option.splits sum.splits prod.splits if_splits)
qed

theorem C10_parsed_name_ignored_witness:
  "scpGet (get_ok\<lparr>get_Sscanf := (\<lambda>l. (get_Sscanf get_ok l)\<lparr>sc_name := ''/etc/passwd''\<rparr>)\<rparr>)
       ''/tmp/data.bin'' ''/home/u/data.bin''
     = scpGet get_ok ''/tmp/data.bin'' ''/home/u/data.bin''
   \<and> get_file (scpGet get_ok ''/tmp/data.bin'' ''/home/u/data.bin'')
       = Some \<lparr>lf_path = ''/home/u/data.bin'', lf_mode = Some 420, lf_content = ''0123456789''\<rparr>"
  using C10_parsed_name_ignored
          [where w = get_ok and nm = "\<lambda>l. ''/etc/passwd''" and src = "''/tmp/data.bin''"
             and dest = "''/home/u/data.bin''"]
  by (simp add: get_ok_run)

section \<open>Properties of the float64 quotient\<close>


lemma rne_of_int [simp]: "rne (of_int k) = k"
  by (simp add: rne_def)





















lemma rne_numeral [simp]: "rne (numeral n) = numeral n"
  by (metis rne_of_int of_int_numeral)

lemma rne_one [simp]: "rne 1 = 1"
  by (metis rne_of_int of_int_1)






lemma float64_of_int_zero [simp]: "float64_of_int 0 = 0"
  by (simp add: float64_of_int_def)



subsection \<open>Progress values\<close>













end
